theory Spec2Isabelle
  imports Complex_Main "HOL-Library.Sublist"
begin

section \<open>The error module of the Helius SDK (src/errors/index.ts)\<close>

text \<open>
  The module declares the enumeration \<open>HeliusErrorCode\<close>, the class \<open>HeliusError\<close>, the
  factory \<open>createHeliusError\<close> and the predicates \<open>isHeliusError\<close> and
  \<open>isRetryableError\<close>. The factory and the predicates take a parameter of type \<open>any\<close>, so
  the embedding starts with the values such a parameter can hold.
\<close>

subsection \<open>Values of the runtime\<close>

text \<open>
  A number is an IEEE double: a finite double is the rational it denotes (the two zeros
  are one value here, as they are for \<open>===\<close>, for \<open>Array.prototype.includes\<close> and as
  property keys), and there are the three special values.
\<close>

datatype jsnum = Finite rat | NaN | PosInfinity | NegInfinity

text \<open>
  The values a caller can pass for \<open>any\<close>: \<open>undefined\<close>, \<open>null\<close>, booleans, numbers,
  strings, and plain objects given by their own data properties (name and value; the first
  entry for a name is the property). Functions, symbols, arrays, accessor properties and
  objects with a prototype of their own are not part of the embedding, with one exception:
  the instances of \<open>HeliusError\<close>, which come below.
\<close>

datatype jsval =
    JUndefined
  | JNull
  | JBool bool
  | JNum jsnum
  | JStr string
  | JObj "(string \<times> jsval) list"

text \<open>The only exception the module can meet on these values.\<close>

datatype js_error = TypeError

text \<open>\<open>ToBoolean\<close>: what \<open>if (v)\<close> and \<open>v || w\<close> test.\<close>

fun truthy :: "jsval \<Rightarrow> bool" where
  "truthy JUndefined = False"
| "truthy JNull = False"
| "truthy (JBool b) = b"
| "truthy (JNum n) = (n \<noteq> Finite 0 \<and> n \<noteq> NaN)"
| "truthy (JStr s) = (s \<noteq> [])"
| "truthy (JObj ps) = True"

text \<open>
  Member access \<open>v.k\<close>. On \<open>undefined\<close> and \<open>null\<close> it throws a TypeError. A plain object
  gives its own property, or \<open>undefined\<close>. A boolean, a number or a string is boxed and
  has none of the properties the module reads (\<open>response\<close>, \<open>message\<close>, \<open>status\<close>, \<open>data\<close>,
  \<open>error\<close>); the properties inherited from the built-in prototypes, which the module never
  reads by member access, are left out.
\<close>

fun getprop :: "jsval \<Rightarrow> string \<Rightarrow> js_error + jsval" where
  "getprop JUndefined k = Inl TypeError"
| "getprop JNull k = Inl TypeError"
| "getprop (JObj ps) k = Inr (case map_of ps k of Some v \<Rightarrow> v | None \<Rightarrow> JUndefined)"
| "getprop v k = Inr JUndefined"

text \<open>
  \<open>ToString\<close>, as \<open>String(v)\<close> and the constructor of \<open>Error\<close> apply it. The text of a
  number is the runtime's \<open>Number::toString\<close>, which formats a double; it is the
  parameter \<open>nts\<close>. A plain object is converted by the inherited
  \<open>Object.prototype.toString\<close>, unless an own property \<open>toString\<close> shadows it: in this
  embedding such a property holds a value that cannot be called, the inherited \<open>valueOf\<close>
  gives back the object, and the conversion throws a TypeError.
\<close>

fun ToString :: "(jsnum \<Rightarrow> string) \<Rightarrow> jsval \<Rightarrow> js_error + string" where
  "ToString nts JUndefined = Inr ''undefined''"
| "ToString nts JNull = Inr ''null''"
| "ToString nts (JBool b) = Inr (if b then ''true'' else ''false'')"
| "ToString nts (JNum n) = Inr (nts n)"
| "ToString nts (JStr s) = Inr s"
| "ToString nts (JObj ps) =
     (if ''toString'' \<in> fst ` set ps then Inl TypeError else Inr ''[object Object]'')"

text \<open>
  The values on which \<open>ToString\<close> throws: the plain objects with an own property
  \<open>toString\<close>. The statements below name them by this test.
\<close>

definition shadows_toString :: "jsval \<Rightarrow> bool" where
  "shadows_toString v = (case v of JObj ps \<Rightarrow> ''toString'' \<in> fst ` set ps | _ \<Rightarrow> False)"

text \<open>\<open>String.prototype.includes\<close>: the pattern occurs as a contiguous part of the string.\<close>

definition str_includes :: "string \<Rightarrow> string \<Rightarrow> bool" where
  "str_includes s pat = sublist pat s"

subsection \<open>HeliusErrorCode and HeliusError\<close>

datatype HeliusErrorCode =
    API_KEY_INVALID
  | API_RATE_LIMIT
  | API_REQUEST_FAILED
  | ASSET_NOT_FOUND
  | WEBHOOK_NOT_FOUND
  | WEBHOOK_ADDRESS_LIMIT
  | TRANSACTION_FAILED
  | TRANSACTION_SIMULATE_FAILED
  | INSUFFICIENT_FUNDS
  | INVALID_INPUT
  | NETWORK_ERROR
  | UNKNOWN_ERROR

text \<open>
  What the field \<open>code\<close> holds at run time. The factory takes it from
  \<open>statusCodeMap[status]\<close>, a lookup in an object literal, and for a status that is the
  name of a member of \<open>Object.prototype\<close> the lookup gives that member and not a code.
\<close>

datatype code_val = Code HeliusErrorCode | ObjectPrototypeMember string

text \<open>
  The fields of an instance (the class has the semantics of an ECMAScript class that
  extends \<open>Error\<close>). \<open>statusCode\<close> is \<open>JUndefined\<close> when absent; the factory stores the
  status it found, whatever value that is. \<open>message\<close> is a string, since the constructor
  of \<open>Error\<close> converts it.
\<close>

record HeliusError =
  code :: code_val
  message :: string
  statusCode :: jsval
  retryable :: bool
  operation :: "string option"

text \<open>The third argument of the constructor; a field left out is \<open>undefined\<close>.\<close>

record options =
  opt_statusCode :: jsval
  opt_retryable :: "bool option"
  opt_operation :: "string option"

text \<open>The default \<open>{}\<close> of the third argument.\<close>

definition no_options :: options where
  "no_options = \<lparr>opt_statusCode = JUndefined, opt_retryable = None, opt_operation = None\<rparr>"

text \<open>
  The constructor (lines 37 to 52). \<open>super(message)\<close> sets the message to
  \<open>ToString(message)\<close> unless the argument is \<open>undefined\<close>, when the instance inherits the
  empty message of \<open>Error.prototype\<close>; the conversion can throw: this is \<open>Error_message\<close>.
  \<open>options.retryable || false\<close> is false for a field left out.
\<close>

definition Error_message :: "(jsnum \<Rightarrow> string) \<Rightarrow> jsval \<Rightarrow> js_error + string" where
  "Error_message nts msg = (if msg = JUndefined then Inr [] else ToString nts msg)"

definition new_HeliusError ::
  "(jsnum \<Rightarrow> string) \<Rightarrow> code_val \<Rightarrow> jsval \<Rightarrow> options \<Rightarrow> js_error + HeliusError" where
  "new_HeliusError nts c msg opts =
     (case Error_message nts msg of
        Inl x \<Rightarrow> Inl x
      | Inr text \<Rightarrow>
          Inr \<lparr>code = c,
               message = text,
               statusCode = opt_statusCode opts,
               retryable = (case opt_retryable opts of Some b \<Rightarrow> b | None \<Rightarrow> False),
               operation = opt_operation opts\<rparr>)"

definition isRetryable :: "HeliusError \<Rightarrow> bool" where
  "isRetryable e = retryable e"

definition getUserMessage :: "HeliusError \<Rightarrow> string" where
  "getUserMessage e =
     (case code e of
        Code API_KEY_INVALID \<Rightarrow>
          ''Invalid API key. Please check your API key in the Helius dashboard.''
      | Code API_RATE_LIMIT \<Rightarrow>
          ''Rate limit exceeded. Please wait before making more requests.''
      | Code WEBHOOK_ADDRESS_LIMIT \<Rightarrow>
          ''Webhook address limit exceeded. Maximum 100,000 addresses per webhook.''
      | Code INSUFFICIENT_FUNDS \<Rightarrow>
          ''Insufficient funds for this transaction.''
      | _ \<Rightarrow> message e)"

subsection \<open>The argument of the factory and of the predicates\<close>

text \<open>
  A value of type \<open>any\<close> is one of the values above or an instance of \<open>HeliusError\<close>
  (the predicates are about such instances, and a caller can hand one to the factory
  again).
\<close>

datatype anyval = Plain jsval | Instance HeliusError

text \<open>
  Member access on the argument. An instance has the string \<open>message\<close>; \<open>response\<close> is
  not among its properties.
\<close>

fun get_member :: "anyval \<Rightarrow> string \<Rightarrow> js_error + jsval" where
  "get_member (Plain v) k = getprop v k"
| "get_member (Instance e) k = Inr (if k = ''message'' then JStr (message e) else JUndefined)"

text \<open>
  \<open>String(error)\<close>. An instance is converted by \<open>Error.prototype.toString\<close>, with the
  name \<open>HeliusError\<close> the constructor set.
\<close>

fun String_any :: "(jsnum \<Rightarrow> string) \<Rightarrow> anyval \<Rightarrow> js_error + string" where
  "String_any nts (Plain v) = ToString nts v"
| "String_any nts (Instance e) =
     Inr (if message e = [] then ''HeliusError'' else ''HeliusError: '' @ message e)"

subsection \<open>The factory createHeliusError\<close>

text \<open>
  The literal \<open>statusCodeMap\<close> (lines 81 to 88), with the numeric keys as the source
  writes them, and the names these keys have as properties of the object.
\<close>

definition statusCodeMap :: "(rat \<times> HeliusErrorCode) list" where
  "statusCodeMap =
     [(401, API_KEY_INVALID),
      (429, API_RATE_LIMIT),
      (404, ASSET_NOT_FOUND),
      (500, API_REQUEST_FAILED),
      (502, API_REQUEST_FAILED),
      (503, API_REQUEST_FAILED)]"

definition statusCodeMap_names :: "(string \<times> HeliusErrorCode) list" where
  "statusCodeMap_names =
     [(''401'', API_KEY_INVALID),
      (''429'', API_RATE_LIMIT),
      (''404'', ASSET_NOT_FOUND),
      (''500'', API_REQUEST_FAILED),
      (''502'', API_REQUEST_FAILED),
      (''503'', API_REQUEST_FAILED)]"

text \<open>The members every object literal inherits from \<open>Object.prototype\<close>.\<close>

definition objectPrototypeMembers :: "string list" where
  "objectPrototypeMembers =
     [''constructor'', ''toString'', ''toLocaleString'', ''valueOf'', ''hasOwnProperty'',
      ''isPrototypeOf'', ''propertyIsEnumerable'', ''__proto__'', ''__defineGetter__'',
      ''__defineSetter__'', ''__lookupGetter__'', ''__lookupSetter__'']"

text \<open>
  \<open>statusCodeMap[status]\<close>: the status becomes a property key. A number is the key of
  an entry exactly when it equals the entry's numeric key (its text is then the entry's
  name, and the text of no number is the name of an inherited member). A string is the
  key as it stands. \<open>undefined\<close>, \<open>null\<close> and the booleans give the keys \<open>undefined\<close>,
  \<open>null\<close>, \<open>true\<close> and \<open>false\<close>, a plain object gives \<open>[object Object]\<close> or throws as
  \<open>ToString\<close> does; none of these is a property. \<open>None\<close> is the \<open>undefined\<close> of a
  missing property.
\<close>

fun statusCodeMap_at :: "jsval \<Rightarrow> js_error + code_val option" where
  "statusCodeMap_at (JNum (Finite r)) = Inr (map_option Code (map_of statusCodeMap r))"
| "statusCodeMap_at (JNum n) = Inr None"
| "statusCodeMap_at (JStr s) =
     Inr (case map_of statusCodeMap_names s of
            Some c \<Rightarrow> Some (Code c)
          | None \<Rightarrow>
              if s \<in> set objectPrototypeMembers then Some (ObjectPrototypeMember s) else None)"
| "statusCodeMap_at (JObj ps) =
     (if ''toString'' \<in> fst ` set ps then Inl TypeError else Inr None)"
| "statusCodeMap_at v = Inr None"

text \<open>
  \<open>[429, 500, 502, 503].includes(status)\<close> (line 95): the comparison is SameValueZero, so
  only a number can be found.
\<close>

definition retryableStatuses :: "rat list" where
  "retryableStatuses = [429, 500, 502, 503]"

fun array_includes :: "rat list \<Rightarrow> jsval \<Rightarrow> bool" where
  "array_includes xs (JNum (Finite r)) = (r \<in> set xs)"
| "array_includes xs v = False"

text \<open>
  Line 79, \<open>const message = error.response.data?.error || error.message\<close>; the second
  argument is \<open>error.response\<close>.
\<close>

definition response_message :: "anyval \<Rightarrow> jsval \<Rightarrow> js_error + jsval" where
  "response_message error response =
     (case getprop response ''data'' of
        Inl x \<Rightarrow> Inl x
      | Inr data \<Rightarrow>
          (case (if data = JUndefined \<or> data = JNull then Inr JUndefined
                 else getprop data ''error'') of
             Inl x \<Rightarrow> Inl x
           | Inr e \<Rightarrow> if truthy e then Inr e else get_member error ''message''))"

text \<open>Line 102, \<open>const errorMessage = error.message || String(error)\<close>.\<close>

definition errorMessage :: "(jsnum \<Rightarrow> string) \<Rightarrow> anyval \<Rightarrow> js_error + jsval" where
  "errorMessage nts error =
     (case get_member error ''message'' of
        Inl x \<Rightarrow> Inl x
      | Inr m \<Rightarrow>
          if truthy m then Inr m
          else (case String_any nts error of Inl x \<Rightarrow> Inl x | Inr s \<Rightarrow> Inr (JStr s)))"

text \<open>
  The factory (lines 75 to 122); \<open>oper\<close> is its optional parameter \<open>operation\<close>. In the
  second part \<open>errorMessage.includes\<close> is the
  method of a string; on a value that is not a string the call throws a TypeError (a
  number, \<open>true\<close> or a plain object of this embedding has no method of that name).
\<close>

definition createHeliusError ::
  "(jsnum \<Rightarrow> string) \<Rightarrow> anyval \<Rightarrow> string option \<Rightarrow> js_error + HeliusError" where
  "createHeliusError nts error oper =
     (case get_member error ''response'' of
        Inl x \<Rightarrow> Inl x
      | Inr response \<Rightarrow>
          if truthy response then
            (case getprop response ''status'' of
               Inl x \<Rightarrow> Inl x
             | Inr status \<Rightarrow>
                 (case response_message error response of
                    Inl x \<Rightarrow> Inl x
                  | Inr msg \<Rightarrow>
                      (case statusCodeMap_at status of
                         Inl x \<Rightarrow> Inl x
                       | Inr found \<Rightarrow>
                           new_HeliusError nts
                             (case found of Some c \<Rightarrow> c | None \<Rightarrow> Code NETWORK_ERROR)
                             msg
                             \<lparr>opt_statusCode = status,
                              opt_retryable = Some (array_includes retryableStatuses status),
                              opt_operation = oper\<rparr>)))
          else
            (case errorMessage nts error of
               Inl x \<Rightarrow> Inl x
             | Inr em \<Rightarrow>
                 (case em of
                    JStr s \<Rightarrow>
                      if str_includes s ''100,000 addresses'' \<or> str_includes s ''address limit''
                      then new_HeliusError nts (Code WEBHOOK_ADDRESS_LIMIT) em
                             (no_options\<lparr>opt_operation := oper\<rparr>)
                      else if str_includes s ''insufficient funds''
                      then new_HeliusError nts (Code INSUFFICIENT_FUNDS) em
                             (no_options\<lparr>opt_operation := oper\<rparr>)
                      else if str_includes s ''simulation failed''
                      then new_HeliusError nts (Code TRANSACTION_SIMULATE_FAILED) em
                             (no_options\<lparr>opt_operation := oper\<rparr>)
                      else new_HeliusError nts (Code UNKNOWN_ERROR) em
                             (no_options\<lparr>opt_operation := oper\<rparr>)
                  | _ \<Rightarrow> Inl TypeError)))"

subsection \<open>The predicates\<close>

text \<open>\<open>error instanceof HeliusError\<close> (line 126).\<close>

fun isHeliusError :: "anyval \<Rightarrow> bool" where
  "isHeliusError (Instance e) = True"
| "isHeliusError (Plain v) = False"

text \<open>
  The method call \<open>error.isRetryable()\<close>. Only an instance has the method; on any other
  value of this embedding the call throws a TypeError.
\<close>

fun call_isRetryable :: "anyval \<Rightarrow> js_error + bool" where
  "call_isRetryable (Instance e) = Inr (isRetryable e)"
| "call_isRetryable (Plain v) = Inl TypeError"

text \<open>
  Line 130, \<open>isHeliusError(error) && error.isRetryable()\<close>: the right operand is evaluated
  only when the left one is true.
\<close>

definition isRetryableError :: "anyval \<Rightarrow> js_error + bool" where
  "isRetryableError error =
     (if isHeliusError error then call_isRetryable error else Inr False)"

subsection \<open>A number formatter for the closed examples\<close>

text \<open>
  The examples below need an instance of the parameter \<open>nts\<close>. This one prints the
  special values and the integers as the runtime does for magnitudes below \<open>10^21\<close>; a
  number with a fractional part, which no example converts, is printed without it.
\<close>

fun digits :: "nat \<Rightarrow> string" where
  "digits n =
     (if n < 10 then [char_of (48 + n)] else digits (n div 10) @ [char_of (48 + n mod 10)])"

declare digits.simps [simp del]

definition integerText :: "jsnum \<Rightarrow> string" where
  "integerText n =
     (case n of
        NaN \<Rightarrow> ''NaN''
      | PosInfinity \<Rightarrow> ''Infinity''
      | NegInfinity \<Rightarrow> ''-Infinity''
      | Finite r \<Rightarrow> (if r < 0 then ''-'' else []) @ digits (nat \<lfloor>\<bar>r\<bar>\<rfloor>))"

subsection \<open>Inputs of the closed examples\<close>

text \<open>
  A failure as the HTTP client reports it:
  \<^verbatim>\<open>{ response: { status: 429, data: { error: "Too many requests" } },
    message: "Request failed with status code 429" }\<close>
\<close>

definition rate_limited :: anyval where
  "rate_limited =
     Plain (JObj [(''response'',
                    JObj [(''status'', JNum (Finite 429)),
                          (''data'', JObj [(''error'', JStr ''Too many requests'')])]),
                  (''message'', JStr ''Request failed with status code 429'')])"



text \<open>
  Failures without a response:
  \<^verbatim>\<open>{ message: "address limit reached: insufficient funds" }\<close>,
  \<^verbatim>\<open>{ message: "insufficient funds for rent" }\<close>,
  \<^verbatim>\<open>{ message: "transaction simulation failed: custom program error" }\<close>
  and the thrown string \<^verbatim>\<open>"boom"\<close>.
\<close>

definition limit_and_funds :: anyval where
  "limit_and_funds = Plain (JObj [(''message'', JStr ''address limit reached: insufficient funds'')])"

definition funds_for_rent :: anyval where
  "funds_for_rent = Plain (JObj [(''message'', JStr ''insufficient funds for rent'')])"

definition simulation :: anyval where
  "simulation =
     Plain (JObj [(''message'', JStr ''transaction simulation failed: custom program error'')])"

definition boom :: anyval where
  "boom = Plain (JStr ''boom'')"

section \<open>Properties\<close>

subsection \<open>Auxiliary facts\<close>

text \<open>\<open>str_includes\<close> is the substring test.\<close>

lemma str_includes_iff: "str_includes s pat \<longleftrightarrow> (\<exists>a b. s = a @ pat @ b)"
  by (simp add: str_includes_def sublist_def)



text \<open>
  The conversions of the first part throw on the objects that shadow \<open>toString\<close> and on
  nothing else: the conversion of the message in the constructor, and the conversion of
  the status to a property key.
\<close>

lemma ToString_throws_iff: "ToString nts v = Inl TypeError \<longleftrightarrow> shadows_toString v"
  by (cases v) (simp_all add: shadows_toString_def)






text \<open>The second part: a falsy \<open>error.response\<close> and a string for \<open>errorMessage\<close>.\<close>

lemma createHeliusError_text:
  assumes "get_member error ''response'' = Inr response" and "\<not> truthy response"
    and "errorMessage nts error = Inr (JStr s)"
  shows "createHeliusError nts error oper =
           Inr \<lparr>code =
                  Code (if str_includes s ''100,000 addresses'' \<or> str_includes s ''address limit''
                        then WEBHOOK_ADDRESS_LIMIT
                        else if str_includes s ''insufficient funds'' then INSUFFICIENT_FUNDS
                        else if str_includes s ''simulation failed''
                        then TRANSACTION_SIMULATE_FAILED
                        else UNKNOWN_ERROR),
                message = s,
                statusCode = JUndefined,
                retryable = False,
                operation = oper\<rparr>"
  using assms
  by (simp add: createHeliusError_def new_HeliusError_def Error_message_def no_options_def)

text \<open>Whatever the factory returns, it got past the read of \<open>error.response\<close>.\<close>

lemma createHeliusError_Inr_response:
  assumes "createHeliusError nts error oper = Inr e"
  obtains response where "get_member error ''response'' = Inr response"
  using assms by (cases "get_member error ''response''") (simp_all add: createHeliusError_def)

text \<open>A retryable result of the factory comes from the first part, with a listed status.\<close>

lemma createHeliusError_retryable_status:
  assumes "createHeliusError nts error oper = Inr e" and "retryable e"
  shows "\<exists>r. statusCode e = JNum (Finite r) \<and> r \<in> set retryableStatuses"
proof -
  from assms(1) obtain response where r: "get_member error ''response'' = Inr response"
    by (rule createHeliusError_Inr_response)
  show ?thesis
  proof (cases "truthy response")
    case True
    with r assms(1) obtain status msg found
      where st: "getprop response ''status'' = Inr status"
        and "new_HeliusError nts (case found of Some c \<Rightarrow> c | None \<Rightarrow> Code NETWORK_ERROR) msg
               \<lparr>opt_statusCode = status,
                opt_retryable = Some (array_includes retryableStatuses status),
                opt_operation = oper\<rparr> = Inr e"
      by (auto simp: createHeliusError_def split: sum.splits)
    then have "statusCode e = status" and "retryable e = array_includes retryableStatuses status"
      by (auto simp: new_HeliusError_def split: sum.splits)
    with assms(2) show ?thesis
      by (cases "(retryableStatuses, status)" rule: array_includes.cases) auto
  next
    case False
    with r assms(1) have "\<not> retryable e"
      by (auto simp: createHeliusError_def new_HeliusError_def no_options_def
               split: sum.splits jsval.splits if_splits)
    with assms(2) show ?thesis by simp
  qed
qed

text \<open>
  Booleans, numbers, strings and instances of \<open>HeliusError\<close> are classified: the
  factory returns on them.
\<close>

lemma createHeliusError_returns:
  assumes "error = Plain (JBool b) \<or> error = Plain (JNum n) \<or> error = Plain (JStr s)
           \<or> error = Instance h"
  shows "\<exists>e. createHeliusError nts error oper = Inr e"
proof -
  from assms have r: "get_member error ''response'' = Inr JUndefined"
    by auto
  from assms have "\<exists>t. errorMessage nts error = Inr (JStr t)"
    by (auto simp: errorMessage_def)
  then obtain t where "errorMessage nts error = Inr (JStr t)" ..
  with r show ?thesis
    by (simp add: createHeliusError_text)
qed

subsection \<open>The factory\<close>

text \<open>
  C1. The factory is meant to return a \<open>HeliusError\<close> for every input, \<open>null\<close> and
  \<open>undefined\<close> included. It does not: line 77 reads \<open>error.response\<close> before anything
  else, and on \<open>undefined\<close> and on \<open>null\<close> this member access throws a TypeError, which
  leaves the factory.
\<close>

theorem createHeliusError_nullish_throws:
  "createHeliusError nts (Plain JUndefined) oper = Inl TypeError
   \<and> createHeliusError nts (Plain JNull) oper = Inl TypeError"
  by (simp add: createHeliusError_def)




text \<open>
  C3. For an input without a response (the read of \<open>error.response\<close> gives a falsy
  value) whose \<open>errorMessage\<close> is the string \<open>s\<close>, the texts are tried in a fixed order
  and the first that occurs in \<open>s\<close> decides: \<open>100,000 addresses\<close> or \<open>address limit\<close>
  give \<open>WEBHOOK_ADDRESS_LIMIT\<close>; failing these, \<open>insufficient funds\<close> gives
  \<open>INSUFFICIENT_FUNDS\<close>; failing these, \<open>simulation failed\<close> gives
  \<open>TRANSACTION_SIMULATE_FAILED\<close>. So a message with both \<open>address limit\<close> and
  \<open>insufficient funds\<close> is a \<open>WEBHOOK_ADDRESS_LIMIT\<close>.
\<close>

theorem createHeliusError_text_priority:
  assumes "get_member error ''response'' = Inr response" and "\<not> truthy response"
    and "errorMessage nts error = Inr (JStr s)"
  shows "(str_includes s ''100,000 addresses'' \<or> str_includes s ''address limit'' \<longrightarrow>
            (\<exists>e. createHeliusError nts error oper = Inr e \<and> code e = Code WEBHOOK_ADDRESS_LIMIT))
       \<and> (\<not> str_includes s ''100,000 addresses'' \<and> \<not> str_includes s ''address limit''
            \<and> str_includes s ''insufficient funds'' \<longrightarrow>
            (\<exists>e. createHeliusError nts error oper = Inr e \<and> code e = Code INSUFFICIENT_FUNDS))
       \<and> (\<not> str_includes s ''100,000 addresses'' \<and> \<not> str_includes s ''address limit''
            \<and> \<not> str_includes s ''insufficient funds'' \<and> str_includes s ''simulation failed'' \<longrightarrow>
            (\<exists>e. createHeliusError nts error oper = Inr e
                 \<and> code e = Code TRANSACTION_SIMULATE_FAILED))
       \<and> (str_includes s ''address limit'' \<and> str_includes s ''insufficient funds'' \<longrightarrow>
            (\<exists>e. createHeliusError nts error oper = Inr e \<and> code e = Code WEBHOOK_ADDRESS_LIMIT))"
  using createHeliusError_text [OF assms, of oper] by simp

theorem createHeliusError_text_priority_witness:
  "get_member limit_and_funds ''response'' = Inr JUndefined
   \<and> \<not> truthy JUndefined
   \<and> errorMessage integerText limit_and_funds =
       Inr (JStr ''address limit reached: insufficient funds'')
   \<and> str_includes ''address limit reached: insufficient funds'' ''address limit''
   \<and> str_includes ''address limit reached: insufficient funds'' ''insufficient funds''
   \<and> (\<exists>e. createHeliusError integerText limit_and_funds None = Inr e
          \<and> code e = Code WEBHOOK_ADDRESS_LIMIT)
   \<and> get_member funds_for_rent ''response'' = Inr JUndefined
   \<and> errorMessage integerText funds_for_rent = Inr (JStr ''insufficient funds for rent'')
   \<and> \<not> str_includes ''insufficient funds for rent'' ''100,000 addresses''
   \<and> \<not> str_includes ''insufficient funds for rent'' ''address limit''
   \<and> str_includes ''insufficient funds for rent'' ''insufficient funds''
   \<and> (\<exists>e. createHeliusError integerText funds_for_rent None = Inr e
          \<and> code e = Code INSUFFICIENT_FUNDS)
   \<and> get_member simulation ''response'' = Inr JUndefined
   \<and> errorMessage integerText simulation =
       Inr (JStr ''transaction simulation failed: custom program error'')
   \<and> \<not> str_includes ''transaction simulation failed: custom program error'' ''100,000 addresses''
   \<and> \<not> str_includes ''transaction simulation failed: custom program error'' ''address limit''
   \<and> \<not> str_includes ''transaction simulation failed: custom program error''
          ''insufficient funds''
   \<and> str_includes ''transaction simulation failed: custom program error'' ''simulation failed''
   \<and> (\<exists>e. createHeliusError integerText simulation None = Inr e
          \<and> code e = Code TRANSACTION_SIMULATE_FAILED)"
proof -
  have u: "\<not> truthy JUndefined" by simp
  have a1: "get_member limit_and_funds ''response'' = Inr JUndefined"
    by (simp add: limit_and_funds_def)
  have a2: "errorMessage integerText limit_and_funds =
              Inr (JStr ''address limit reached: insufficient funds'')"
    by (simp add: limit_and_funds_def errorMessage_def)
  have a3: "str_includes ''address limit reached: insufficient funds'' ''address limit''"
    by (simp add: str_includes_def sublist_code)
  have a4: "str_includes ''address limit reached: insufficient funds'' ''insufficient funds''"
    by (simp add: str_includes_def sublist_code)
  have b1: "get_member funds_for_rent ''response'' = Inr JUndefined"
    by (simp add: funds_for_rent_def)
  have b2: "errorMessage integerText funds_for_rent = Inr (JStr ''insufficient funds for rent'')"
    by (simp add: funds_for_rent_def errorMessage_def)
  have b3: "\<not> str_includes ''insufficient funds for rent'' ''100,000 addresses''"
    by (simp add: str_includes_def sublist_code)
  have b4: "\<not> str_includes ''insufficient funds for rent'' ''address limit''"
    by (simp add: str_includes_def sublist_code)
  have b5: "str_includes ''insufficient funds for rent'' ''insufficient funds''"
    by (simp add: str_includes_def sublist_code)
  have c1: "get_member simulation ''response'' = Inr JUndefined"
    by (simp add: simulation_def)
  have c2: "errorMessage integerText simulation =
              Inr (JStr ''transaction simulation failed: custom program error'')"
    by (simp add: simulation_def errorMessage_def)
  have c3: "\<not> str_includes ''transaction simulation failed: custom program error''
                 ''100,000 addresses''"
    by (simp add: str_includes_def sublist_code)
  have c4: "\<not> str_includes ''transaction simulation failed: custom program error''
                 ''address limit''"
    by (simp add: str_includes_def sublist_code)
  have c5: "\<not> str_includes ''transaction simulation failed: custom program error''
                 ''insufficient funds''"
    by (simp add: str_includes_def sublist_code)
  have c6: "str_includes ''transaction simulation failed: custom program error''
               ''simulation failed''"
    by (simp add: str_includes_def sublist_code)
  from createHeliusError_text_priority [OF a1 u a2, of None] a3 a4
  have A: "\<exists>e. createHeliusError integerText limit_and_funds None = Inr e
               \<and> code e = Code WEBHOOK_ADDRESS_LIMIT"
    by blast
  from createHeliusError_text_priority [OF b1 u b2, of None] b3 b4 b5
  have B: "\<exists>e. createHeliusError integerText funds_for_rent None = Inr e
               \<and> code e = Code INSUFFICIENT_FUNDS"
    by blast
  from createHeliusError_text_priority [OF c1 u c2, of None] c3 c4 c5 c6
  have C: "\<exists>e. createHeliusError integerText simulation None = Inr e
               \<and> code e = Code TRANSACTION_SIMULATE_FAILED"
    by blast
  from u a1 a2 a3 a4 A b1 b2 b3 b4 b5 B c1 c2 c3 c4 c5 c6 C show ?thesis
    by (intro conjI)
qed







text \<open>
  C8, as stated: without a response and without a matching text, the message of the
  result is the failure's message field, or the failure's string conversion if no
  message field exists. The failure \<^verbatim>\<open>{ message: "" }\<close> has a message field, the empty
  string; line 102 tests the field for truth, not for existence, so the message of the
  result is the string conversion of the object and not the field.
\<close>

theorem createHeliusError_empty_message_counterexample:
  "get_member (Plain (JObj [(''message'', JStr [])])) ''response'' = Inr JUndefined
   \<and> get_member (Plain (JObj [(''message'', JStr [])])) ''message'' = Inr (JStr [])
   \<and> createHeliusError integerText (Plain (JObj [(''message'', JStr [])])) None =
       Inr \<lparr>code = Code UNKNOWN_ERROR,
            message = ''[object Object]'',
            statusCode = JUndefined,
            retryable = False,
            operation = None\<rparr>"
  by (simp add: createHeliusError_def errorMessage_def new_HeliusError_def Error_message_def
        no_options_def str_includes_def sublist_code)

text \<open>
  C8, amended: let the input have no response, and let \<open>s\<close> be its message string as line
  102 derives it: the message field when that field is truthy (and then a string), the
  string conversion of the input when the field is missing or falsy, an empty message
  included. Then the factory returns an error with message \<open>s\<close>, no \<open>statusCode\<close> and
  \<open>retryable\<close> false, and when none of the texts occurs in \<open>s\<close> its code is
  \<open>UNKNOWN_ERROR\<close>.
\<close>

theorem createHeliusError_fallback:
  assumes "get_member error ''response'' = Inr response" and "\<not> truthy response"
    and "get_member error ''message'' = Inr m"
    and "(truthy m \<and> m = JStr s) \<or> (\<not> truthy m \<and> String_any nts error = Inr s)"
  shows "(\<not> str_includes s ''100,000 addresses'' \<and> \<not> str_includes s ''address limit''
            \<and> \<not> str_includes s ''insufficient funds'' \<and> \<not> str_includes s ''simulation failed'' \<longrightarrow>
            createHeliusError nts error oper =
              Inr \<lparr>code = Code UNKNOWN_ERROR,
                   message = s,
                   statusCode = JUndefined,
                   retryable = False,
                   operation = oper\<rparr>)
       \<and> (\<exists>e. createHeliusError nts error oper = Inr e \<and> message e = s
               \<and> statusCode e = JUndefined \<and> retryable e = False \<and> operation e = oper)"
proof -
  from assms(3,4) have "errorMessage nts error = Inr (JStr s)"
    by (auto simp: errorMessage_def)
  from createHeliusError_text [OF assms(1,2) this, of oper] show ?thesis
    by simp
qed

theorem createHeliusError_fallback_witness:
  "get_member boom ''response'' = Inr JUndefined
   \<and> \<not> truthy JUndefined
   \<and> get_member boom ''message'' = Inr JUndefined
   \<and> String_any integerText boom = Inr ''boom''
   \<and> \<not> str_includes ''boom'' ''100,000 addresses'' \<and> \<not> str_includes ''boom'' ''address limit''
   \<and> \<not> str_includes ''boom'' ''insufficient funds'' \<and> \<not> str_includes ''boom'' ''simulation failed''
   \<and> createHeliusError integerText boom (Some ''getAsset'') =
       Inr \<lparr>code = Code UNKNOWN_ERROR,
            message = ''boom'',
            statusCode = JUndefined,
            retryable = False,
            operation = Some ''getAsset''\<rparr>"
proof -
  have h1: "get_member boom ''response'' = Inr JUndefined"
    by (simp add: boom_def)
  have h2: "\<not> truthy JUndefined" by simp
  have h3: "get_member boom ''message'' = Inr JUndefined"
    by (simp add: boom_def)
  have h4: "String_any integerText boom = Inr ''boom''"
    by (simp add: boom_def)
  have h5: "(truthy JUndefined \<and> JUndefined = JStr ''boom'')
            \<or> (\<not> truthy JUndefined \<and> String_any integerText boom = Inr ''boom'')"
    using h2 h4 by simp
  have n1: "\<not> str_includes ''boom'' ''100,000 addresses''"
    by (simp add: str_includes_def sublist_code)
  have n2: "\<not> str_includes ''boom'' ''address limit''"
    by (simp add: str_includes_def sublist_code)
  have n3: "\<not> str_includes ''boom'' ''insufficient funds''"
    by (simp add: str_includes_def sublist_code)
  have n4: "\<not> str_includes ''boom'' ''simulation failed''"
    by (simp add: str_includes_def sublist_code)
  from createHeliusError_fallback [OF h1 h2 h3 h5, of "Some ''getAsset''"] n1 n2 n3 n4
  have "createHeliusError integerText boom (Some ''getAsset'') =
          Inr \<lparr>code = Code UNKNOWN_ERROR,
               message = ''boom'',
               statusCode = JUndefined,
               retryable = False,
               operation = Some ''getAsset''\<rparr>"
    by blast
  with h1 h2 h3 h4 n1 n2 n3 n4 show ?thesis
    by (intro conjI)
qed

subsection \<open>The class\<close>

text \<open>
  C5. An error is retryable only with a reason: one built by the constructor only if it
  was given \<open>retryable: true\<close>, one returned by the factory, through whichever part, only
  if its \<open>statusCode\<close> is one of the numbers 429, 500, 502 and 503.
\<close>

theorem retryable_only_listed_or_explicit:
  "(new_HeliusError nts c msg opts = Inr e \<and> retryable e \<longrightarrow> opt_retryable opts = Some True)
   \<and> (createHeliusError nts error oper = Inr e' \<and> retryable e' \<longrightarrow>
        statusCode e' \<in>
          {JNum (Finite 429), JNum (Finite 500), JNum (Finite 502), JNum (Finite 503)})"
proof (intro conjI impI)
  assume "new_HeliusError nts c msg opts = Inr e \<and> retryable e"
  then show "opt_retryable opts = Some True"
    by (auto simp: new_HeliusError_def split: sum.splits option.splits)
next
  assume "createHeliusError nts error oper = Inr e' \<and> retryable e'"
  then have "\<exists>r. statusCode e' = JNum (Finite r) \<and> r \<in> set retryableStatuses"
    by (blast intro: createHeliusError_retryable_status)
  then show "statusCode e' \<in>
               {JNum (Finite 429), JNum (Finite 500), JNum (Finite 502), JNum (Finite 503)}"
    by (auto simp: retryableStatuses_def)
qed

theorem retryable_only_listed_or_explicit_witness:
  "new_HeliusError integerText (Code TRANSACTION_FAILED) (JStr ''blockhash expired'')
     \<lparr>opt_statusCode = JUndefined, opt_retryable = Some True, opt_operation = None\<rparr> =
     Inr \<lparr>code = Code TRANSACTION_FAILED,
          message = ''blockhash expired'',
          statusCode = JUndefined,
          retryable = True,
          operation = None\<rparr>
   \<and> opt_retryable \<lparr>opt_statusCode = JUndefined, opt_retryable = Some True,
                     opt_operation = None\<rparr> = Some True
   \<and> createHeliusError integerText rate_limited None =
       Inr \<lparr>code = Code API_RATE_LIMIT,
            message = ''Too many requests'',
            statusCode = JNum (Finite 429),
            retryable = True,
            operation = None\<rparr>
   \<and> JNum (Finite 429) \<in>
       {JNum (Finite 429), JNum (Finite 500), JNum (Finite 502), JNum (Finite 503)}"
proof -
  let ?opts = "\<lparr>opt_statusCode = JUndefined, opt_retryable = Some True, opt_operation = None\<rparr>"
  let ?e = "\<lparr>code = Code TRANSACTION_FAILED, message = ''blockhash expired'',
             statusCode = JUndefined, retryable = True, operation = None\<rparr>"
  let ?e' = "\<lparr>code = Code API_RATE_LIMIT, message = ''Too many requests'',
              statusCode = JNum (Finite 429), retryable = True, operation = None\<rparr>"
  have h1: "new_HeliusError integerText (Code TRANSACTION_FAILED) (JStr ''blockhash expired'')
              ?opts = Inr ?e"
    by (simp add: new_HeliusError_def Error_message_def)
  have h2: "createHeliusError integerText rate_limited None = Inr ?e'"
    by (simp add: createHeliusError_def rate_limited_def response_message_def
          new_HeliusError_def Error_message_def statusCodeMap_def retryableStatuses_def)
  from retryable_only_listed_or_explicit
         [of integerText "Code TRANSACTION_FAILED" "JStr ''blockhash expired''" ?opts ?e
             rate_limited None ?e']
       h1 h2
  have "opt_retryable ?opts = Some True"
    and "statusCode ?e' \<in>
           {JNum (Finite 429), JNum (Finite 500), JNum (Finite 502), JNum (Finite 503)}"
    by simp_all
  with h1 h2 show ?thesis by simp
qed

text \<open>
  C6. \<open>getUserMessage\<close> gives its fixed text for the codes \<open>API_KEY_INVALID\<close>,
  \<open>API_RATE_LIMIT\<close>, \<open>WEBHOOK_ADDRESS_LIMIT\<close> and \<open>INSUFFICIENT_FUNDS\<close>, and the stored
  message, unchanged, for every other code. It is a function of the instance alone and has
  a value on every instance.
\<close>

theorem getUserMessage_by_code:
  "(code e = Code API_KEY_INVALID \<longrightarrow>
      getUserMessage e =
        ''Invalid API key. Please check your API key in the Helius dashboard.'')
   \<and> (code e = Code API_RATE_LIMIT \<longrightarrow>
        getUserMessage e = ''Rate limit exceeded. Please wait before making more requests.'')
   \<and> (code e = Code WEBHOOK_ADDRESS_LIMIT \<longrightarrow>
        getUserMessage e =
          ''Webhook address limit exceeded. Maximum 100,000 addresses per webhook.'')
   \<and> (code e = Code INSUFFICIENT_FUNDS \<longrightarrow>
        getUserMessage e = ''Insufficient funds for this transaction.'')
   \<and> (code e \<notin> {Code API_KEY_INVALID, Code API_RATE_LIMIT, Code WEBHOOK_ADDRESS_LIMIT,
                  Code INSUFFICIENT_FUNDS} \<longrightarrow>
        getUserMessage e = message e)"
proof (cases "code e")
  case (Code k)
  then show ?thesis
    by (cases k) (simp_all add: getUserMessage_def)
next
  case (ObjectPrototypeMember name)
  then show ?thesis
    by (simp add: getUserMessage_def)
qed

theorem getUserMessage_by_code_witness:
  "getUserMessage \<lparr>code = Code API_KEY_INVALID, message = ''Unauthorized'',
                    statusCode = JNum (Finite 401), retryable = False, operation = None\<rparr> =
     ''Invalid API key. Please check your API key in the Helius dashboard.''
   \<and> getUserMessage \<lparr>code = Code API_RATE_LIMIT, message = ''Too many requests'',
                      statusCode = JNum (Finite 429), retryable = True, operation = None\<rparr> =
       ''Rate limit exceeded. Please wait before making more requests.''
   \<and> getUserMessage \<lparr>code = Code WEBHOOK_ADDRESS_LIMIT, message = ''address limit'',
                      statusCode = JUndefined, retryable = False, operation = None\<rparr> =
       ''Webhook address limit exceeded. Maximum 100,000 addresses per webhook.''
   \<and> getUserMessage \<lparr>code = Code INSUFFICIENT_FUNDS, message = ''insufficient funds for rent'',
                      statusCode = JUndefined, retryable = False, operation = None\<rparr> =
       ''Insufficient funds for this transaction.''
   \<and> getUserMessage \<lparr>code = Code ASSET_NOT_FOUND, message = ''Asset not found'',
                      statusCode = JNum (Finite 404), retryable = False, operation = None\<rparr> =
       ''Asset not found''"
proof -
  let ?a = "\<lparr>code = Code API_KEY_INVALID, message = ''Unauthorized'',
             statusCode = JNum (Finite 401), retryable = False, operation = None\<rparr>"
  let ?b = "\<lparr>code = Code API_RATE_LIMIT, message = ''Too many requests'',
             statusCode = JNum (Finite 429), retryable = True, operation = None\<rparr>"
  let ?c = "\<lparr>code = Code WEBHOOK_ADDRESS_LIMIT, message = ''address limit'',
             statusCode = JUndefined, retryable = False, operation = None\<rparr>"
  let ?d = "\<lparr>code = Code INSUFFICIENT_FUNDS, message = ''insufficient funds for rent'',
             statusCode = JUndefined, retryable = False, operation = None\<rparr>"
  let ?f = "\<lparr>code = Code ASSET_NOT_FOUND, message = ''Asset not found'',
             statusCode = JNum (Finite 404), retryable = False, operation = None\<rparr>"
  from getUserMessage_by_code [of ?a] getUserMessage_by_code [of ?b]
       getUserMessage_by_code [of ?c] getUserMessage_by_code [of ?d]
       getUserMessage_by_code [of ?f]
  show ?thesis by simp
qed

text \<open>
  C9. An error built by the constructor from a message string and the options
  \<open>statusCode\<close>, \<open>retryable\<close> and \<open>operation\<close> has these three values in its fields, and
  \<open>isRetryable()\<close> gives the \<open>retryable\<close> it was built with, true or false.
\<close>

theorem new_HeliusError_roundtrip:
  "\<exists>e. new_HeliusError nts c (JStr m)
          \<lparr>opt_statusCode = sc, opt_retryable = Some r, opt_operation = op\<rparr> = Inr e
       \<and> statusCode e = sc \<and> retryable e = r \<and> isRetryable e = r \<and> operation e = op"
  by (simp add: new_HeliusError_def Error_message_def isRetryable_def)

subsection \<open>The predicates\<close>

text \<open>
  C7. \<open>isRetryableError\<close> gives true exactly on a value for which \<open>isHeliusError\<close> is
  true and whose \<open>isRetryable()\<close> gives true. On every value that is no instance
  (strings, numbers, \<open>null\<close>, plain objects) it gives false, and it throws on no value.
\<close>

theorem isRetryableError_iff:
  "(isRetryableError x = Inr True \<longleftrightarrow> isHeliusError x \<and> call_isRetryable x = Inr True)
   \<and> (\<not> isHeliusError x \<longrightarrow> isRetryableError x = Inr False)
   \<and> (\<exists>b. isRetryableError x = Inr b)"
  by (cases x) (auto simp: isRetryableError_def)

theorem isRetryableError_iff_witness:
  "\<not> isHeliusError (Plain (JStr ''boom'')) \<and> isRetryableError (Plain (JStr ''boom'')) = Inr False
   \<and> \<not> isHeliusError (Plain (JNum (Finite 429)))
   \<and> isRetryableError (Plain (JNum (Finite 429))) = Inr False
   \<and> \<not> isHeliusError (Plain JNull) \<and> isRetryableError (Plain JNull) = Inr False
   \<and> \<not> isHeliusError (Plain (JObj [(''retryable'', JBool True)]))
   \<and> isRetryableError (Plain (JObj [(''retryable'', JBool True)])) = Inr False
   \<and> isHeliusError (Instance \<lparr>code = Code API_RATE_LIMIT, message = ''Too many requests'',
                               statusCode = JNum (Finite 429), retryable = True,
                               operation = None\<rparr>)
   \<and> isRetryableError (Instance \<lparr>code = Code API_RATE_LIMIT, message = ''Too many requests'',
                                  statusCode = JNum (Finite 429), retryable = True,
                                  operation = None\<rparr>) = Inr True"
proof -
  let ?i = "Instance \<lparr>code = Code API_RATE_LIMIT, message = ''Too many requests'',
                      statusCode = JNum (Finite 429), retryable = True, operation = None\<rparr>"
  have p: "\<not> isHeliusError (Plain (JStr ''boom''))" "\<not> isHeliusError (Plain (JNum (Finite 429)))"
    "\<not> isHeliusError (Plain JNull)" "\<not> isHeliusError (Plain (JObj [(''retryable'', JBool True)]))"
    by simp_all
  have i: "isHeliusError ?i" "call_isRetryable ?i = Inr True"
    by (simp_all add: isRetryable_def)
  from isRetryableError_iff [of "Plain (JStr ''boom'')"]
       isRetryableError_iff [of "Plain (JNum (Finite 429))"]
       isRetryableError_iff [of "Plain JNull"]
       isRetryableError_iff [of "Plain (JObj [(''retryable'', JBool True)])"]
       isRetryableError_iff [of ?i] p i
  show ?thesis by simp
qed

end
